theory Spec2Isabelle
  imports Main
begin

section \<open>Python values, exceptions and process outcomes\<close>

text \<open>
  The program is one Python script, \<^verbatim>\<open>blender-example-cli-cmd.py\<close>. Exceptions are
  values of a sum type: \<open>Inl\<close> carries the exception, \<open>Inr\<close> the returned value.
\<close>

datatype exn =
    ValueError
  | IndexError
  | RuntimeError
  | SystemExit int

text \<open>How the process ends: an exit status, the process image replaced by another
  program (\<^verbatim>\<open>os.execvp\<close> succeeded), or an exception nobody caught.\<close>

datatype outcome =
    Exited int
  | Replaced string "string list"
  | Uncaught exn

subsection \<open>\<^verbatim>\<open>list.index\<close> and slicing\<close>

text \<open>\<^verbatim>\<open>xs.index(x)\<close>: the position of the first element equal to \<open>x\<close>; ValueError when
  there is none.\<close>

fun index_from :: "nat \<Rightarrow> string list \<Rightarrow> string \<Rightarrow> exn + nat" where
  "index_from i [] x = Inl ValueError"
| "index_from i (y # ys) x = (if y = x then Inr i else index_from (Suc i) ys x)"

definition list_index :: "string list \<Rightarrow> string \<Rightarrow> exn + nat" where
  "list_index xs x = index_from 0 xs x"

text \<open>\<^verbatim>\<open>xs[i]\<close> for a non-negative index: IndexError out of range.\<close>

definition getitem :: "'a list \<Rightarrow> nat \<Rightarrow> exn + 'a" where
  "getitem xs i = (if i < length xs then Inr (xs ! i) else Inl IndexError)"

section \<open>The command line: what \<^verbatim>\<open>parse_arguments\<close> declares\<close>

text \<open>
  \<^verbatim>\<open>parse_arguments\<close> builds an \<^verbatim>\<open>argparse.ArgumentParser\<close> and adds four arguments to
  it: the count option \<^verbatim>\<open>--verbose\<close>/\<^verbatim>\<open>-v\<close> with default 0, the option \<^verbatim>\<open>--levels\<close>
  stored with \<^verbatim>\<open>type=int\<close> and default 2, and the positionals \<^verbatim>\<open>input\<close> and \<^verbatim>\<open>output\<close>
  with \<^verbatim>\<open>type=str\<close>. The parser's answer is a namespace with these four attributes
  (\<open>input_arg\<close> and \<open>output_arg\<close> are its attributes \<^verbatim>\<open>input\<close> and \<^verbatim>\<open>output\<close>; a count
  that starts at 0 is never negative).
\<close>

record namespace =
  verbose :: nat
  levels :: int
  input_arg :: string
  output_arg :: string

datatype argument =
    Count_option "string list" nat
  | Int_option "string list" int
  | Str_positional string

definition parser_arguments :: "argument list" where
  "parser_arguments =
     [Count_option [''--verbose'', ''-v''] 0,
      Int_option [''--levels''] 2,
      Str_positional ''input'',
      Str_positional ''output'']"

text \<open>
  What \<^verbatim>\<open>ArgumentParser.parse_args\<close> decides for a list of strings: a namespace, a usage
  error (a required argument is missing, a value is rejected by its type, a string is
  not recognised, ...), or the help requested with \<^verbatim>\<open>-h\<close>.
\<close>

datatype parse_result =
    Parsed namespace
  | Usage_error string
  | Help_requested

section \<open>The host: scene, file system, logging\<close>

text \<open>
  The script drives Blender through \<^verbatim>\<open>bpy\<close>. The model keeps what the script can
  observe or change: the objects of \<^verbatim>\<open>bpy.data.objects\<close> with their selection flag and
  modifier stack, the active object, the files, the root logger (its level, whether it
  has a handler, and the records that passed its level), what was printed, and the
  sequence of host operations invoked.
\<close>

record modifier =
  m_name :: string
  m_type :: string
  m_levels :: int

record object =
  o_name :: string
  o_select :: bool
  o_modifiers :: "modifier list"

record export_opts =
  check_existing :: bool
  use_selection :: bool
  use_animation :: bool
  use_mesh_modifiers :: bool

datatype call =
    Mode_set string bool
  | Objects_remove string
  | Import_scene_obj string
  | Select_all string
  | Modifiers_new string string string
  | Export_scene_obj string export_opts

datatype node = File string | Directory

record world =
  objects :: "object list"
  active_object :: "string option"
  fs :: "string \<rightharpoonup> node"
  calls :: "call list"
  logger_level :: int
  root_handlers :: bool
  logged :: "(int \<times> string) list"
  stdout :: "string list"

text \<open>
  The importer and the exporter are Blender's, and the argument parser is the one of the
  Python that Blender runs: none is the script's, and all three are parameters. The
  importer maps the file's content and the objects already in the scene to the scene's
  objects after the import; the exporter maps its options and the scene's objects to the
  content written; \<open>None\<close> is an operator that fails (RuntimeError). The parser maps the
  declared arguments and the strings to parse to its decision.
\<close>

record host =
  import_scene_obj :: "string \<Rightarrow> object list \<Rightarrow> object list option"
  export_scene_obj :: "export_opts \<Rightarrow> object list \<Rightarrow> string option"
  parse_args :: "argument list \<Rightarrow> string list \<Rightarrow> parse_result"

subsection \<open>Logging\<close>

definition lg_DEBUG :: int where "lg_DEBUG = 10"
definition lg_INFO :: int where "lg_INFO = 20"
definition lg_WARNING :: int where "lg_WARNING = 30"
definition lg_ERROR :: int where "lg_ERROR = 40"

text \<open>\<^verbatim>\<open>LOGLEV = [lg.INFO, lg.DEBUG]\<close>, then
  \<^verbatim>\<open>LOGLEV = [None] + sorted(LOGLEV, reverse=True)\<close>.\<close>

definition LOGLEV :: "int option list" where
  "LOGLEV = [None] @ map Some (rev (sort [lg_INFO, lg_DEBUG]))"

text \<open>\<^verbatim>\<open>LOGGER.log(level, message)\<close> on the root logger: the record passes when its
  level is at least the logger's.\<close>

definition lg_log :: "int \<Rightarrow> string \<Rightarrow> world \<Rightarrow> world" where
  "lg_log lvl msg w =
     (if logger_level w \<le> lvl then w\<lparr>logged := logged w @ [(lvl, msg)]\<rparr> else w)"

text \<open>\<^verbatim>\<open>lg.basicConfig(level=l, format=...)\<close> does nothing when the root logger already
  has a handler. Otherwise it gives it one, and sets the logger's level unless \<open>l\<close> is
  \<^verbatim>\<open>None\<close>, which leaves the level as it is (WARNING in a fresh process).\<close>

definition basicConfig :: "int option \<Rightarrow> world \<Rightarrow> world" where
  "basicConfig l w =
     (if root_handlers w then w
      else (case l of
              None \<Rightarrow> w\<lparr>root_handlers := True\<rparr>
            | Some n \<Rightarrow> w\<lparr>root_handlers := True, logger_level := n\<rparr>))"

definition print :: "string \<Rightarrow> world \<Rightarrow> world" where
  "print msg w = w\<lparr>stdout := stdout w @ [msg]\<rparr>"

definition quoted :: "string \<Rightarrow> string" where
  "quoted s = [CHR 0x27] @ s @ [CHR 0x27]"

subsection \<open>\<^verbatim>\<open>os.path.isfile\<close>\<close>

definition isfile :: "world \<Rightarrow> string \<Rightarrow> bool" where
  "isfile w p = (case fs w p of Some (File c) \<Rightarrow> True | _ \<Rightarrow> False)"

section \<open>\<^verbatim>\<open>parse_arguments\<close>\<close>

text \<open>
  \<^verbatim>\<open>parser.parse_args(argv)\<close> returns the namespace. On a usage error the parser calls
  \<^verbatim>\<open>parser.error\<close>, which prints the usage and the message and exits with status 2; on
  \<^verbatim>\<open>-h\<close> it prints the help and exits with status 0. Both are SystemExit, raised to the
  caller.
\<close>

definition parse_arguments :: "host \<Rightarrow> string list \<Rightarrow> exn + namespace" where
  "parse_arguments h argv =
     (case parse_args h parser_arguments argv of
        Parsed parsed_args \<Rightarrow> Inr parsed_args
      | Usage_error msg \<Rightarrow> Inl (SystemExit 2)
      | Help_requested \<Rightarrow> Inl (SystemExit 0))"

section \<open>The pipeline\<close>

subsection \<open>\<^verbatim>\<open>sceneprep\<close>\<close>

definition mode_set :: "string \<Rightarrow> bool \<Rightarrow> world \<Rightarrow> world" where
  "mode_set m toggle w = w\<lparr>calls := calls w @ [Mode_set m toggle]\<rparr>"

text \<open>\<^verbatim>\<open>bpy.data.objects.remove(obj)\<close>: the object leaves the collection, and is no longer
  the active object.\<close>

definition objects_remove :: "object \<Rightarrow> world \<Rightarrow> world" where
  "objects_remove obj w =
     w\<lparr>objects := remove1 obj (objects w),
       active_object := (if active_object w = Some (o_name obj) then None else active_object w),
       calls := calls w @ [Objects_remove (o_name obj)]\<rparr>"

text \<open>The loop \<^verbatim>\<open>for obj in bpy.data.objects: bpy.data.objects.remove(obj)\<close>, over the
  objects the collection held when the loop began.\<close>

fun remove_each :: "object list \<Rightarrow> world \<Rightarrow> world" where
  "remove_each [] w = w"
| "remove_each (obj # objs) w = remove_each objs (objects_remove obj w)"

definition sceneprep :: "world \<Rightarrow> world" where
  "sceneprep w =
     (let w1 = (if active_object w \<noteq> None then mode_set ''OBJECT'' False w else w)
      in remove_each (objects w1) w1)"

subsection \<open>\<^verbatim>\<open>load_obj\<close> and \<^verbatim>\<open>save_obj\<close>\<close>

definition load_obj :: "host \<Rightarrow> string \<Rightarrow> world \<Rightarrow> (exn + unit) \<times> world" where
  "load_obj h file w =
     (let w1 = lg_log lg_DEBUG (''Loading obj file '' @ quoted file) w;
          w2 = w1\<lparr>calls := calls w1 @ [Import_scene_obj file]\<rparr>
      in case fs w2 file of
           Some (File content) \<Rightarrow>
             (case import_scene_obj h content (objects w2) of
                None \<Rightarrow> (Inl RuntimeError, w2)
              | Some objs \<Rightarrow>
                  (Inr (),
                   lg_log lg_DEBUG (''successfully loaded obj file '' @ quoted file)
                     (w2\<lparr>objects := objs\<rparr>)))
         | _ \<Rightarrow> (Inl RuntimeError, w2))"

definition save_obj :: "host \<Rightarrow> string \<Rightarrow> world \<Rightarrow> (exn + unit) \<times> world" where
  "save_obj h file w =
     (let w1 = lg_log lg_DEBUG (''saving obj file '' @ quoted file) w;
          opts = \<lparr>check_existing = False, use_selection = False, use_animation = False,
                  use_mesh_modifiers = True\<rparr>;
          w2 = w1\<lparr>calls := calls w1 @ [Export_scene_obj file opts]\<rparr>
      in case export_scene_obj h opts (objects w2) of
           None \<Rightarrow> (Inl RuntimeError, w2)
         | Some content \<Rightarrow>
             (case fs w2 file of
                Some Directory \<Rightarrow> (Inl RuntimeError, w2)
              | _ \<Rightarrow>
                  (Inr (),
                   lg_log lg_DEBUG (''successfully saved obj file '' @ quoted file)
                     (w2\<lparr>fs := (fs w2)(file \<mapsto> File content)\<rparr>))))"

subsection \<open>\<^verbatim>\<open>thething\<close>\<close>

text \<open>\<^verbatim>\<open>bpy.ops.object.select_all(action='DESELECT')\<close>\<close>

definition select_all_DESELECT :: "world \<Rightarrow> world" where
  "select_all_DESELECT w =
     w\<lparr>objects := map (\<lambda>obj. obj\<lparr>o_select := False\<rparr>) (objects w),
       calls := calls w @ [Select_all ''DESELECT'']\<rparr>"

text \<open>\<^verbatim>\<open>obj.modifiers.new(name, type)\<close> appends a modifier with the host's default depth
  (1) to the object's stack.\<close>

definition modifiers_new :: "string \<Rightarrow> string \<Rightarrow> object \<Rightarrow> object" where
  "modifiers_new name type obj =
     obj\<lparr>o_modifiers := o_modifiers obj @ [\<lparr>m_name = name, m_type = type, m_levels = 1\<rparr>]\<rparr>"

text \<open>
  \<^verbatim>\<open>modifier.levels = n\<close>, for the modifier just created (the last of the stack). The
  host stores the depth in a C \<^verbatim>\<open>int\<close> property with the range 0 to 11: an integer that
  does not fit a C \<^verbatim>\<open>int\<close> raises ValueError, and any other is clamped to the range.
\<close>

definition fits_c_int :: "int \<Rightarrow> bool" where
  "fits_c_int n = (- 2147483648 \<le> n \<and> n \<le> 2147483647)"

definition set_levels :: "int \<Rightarrow> object \<Rightarrow> exn + object" where
  "set_levels n obj =
     (if \<not> fits_c_int n then Inl ValueError
      else
        (case rev (o_modifiers obj) of
           [] \<Rightarrow> Inr obj
         | m # ms \<Rightarrow> Inr (obj\<lparr>o_modifiers := rev ms @ [m\<lparr>m_levels := max 0 (min 11 n)\<rparr>]\<rparr>)))"

text \<open>
  The loop \<^verbatim>\<open>for obj in bpy.data.objects\<close> of \<^verbatim>\<open>thething\<close>: the objects already visited,
  the objects still to visit, the calls made so far. When the assignment raises, the
  object at hand keeps the modifier it was just given and the loop ends there.
\<close>

fun subdivide_loop ::
  "int \<Rightarrow> object list \<Rightarrow> object list \<Rightarrow> call list
     \<Rightarrow> (exn + unit) \<times> object list \<times> call list" where
  "subdivide_loop n visited [] cs = (Inr (), visited, cs)"
| "subdivide_loop n visited (obj # objs) cs =
     (case set_levels n (modifiers_new ''subsurf'' ''SUBSURF'' obj) of
        Inl e \<Rightarrow>
          (Inl e,
           visited @ modifiers_new ''subsurf'' ''SUBSURF'' obj # objs,
           cs @ [Modifiers_new (o_name obj) ''subsurf'' ''SUBSURF''])
      | Inr obj' \<Rightarrow>
          subdivide_loop n (visited @ [obj']) objs
            (cs @ [Modifiers_new (o_name obj) ''subsurf'' ''SUBSURF'']))"

definition subdivide :: "int \<Rightarrow> world \<Rightarrow> (exn + unit) \<times> world" where
  "subdivide n w =
     (case subdivide_loop n [] (objects w) (calls w) of
        (r, objs, cs) \<Rightarrow> (r, w\<lparr>objects := objs, calls := cs\<rparr>))"

text \<open>\<^verbatim>\<open>thething\<close> returns 1 when the input is not a file, and nothing (\<open>None\<close>) when
  it runs to its end.\<close>

definition thething ::
  "host \<Rightarrow> namespace \<Rightarrow> string \<Rightarrow> string \<Rightarrow> world \<Rightarrow> (exn + int option) \<times> world" where
  "thething h args inp out w =
     (let w0 = lg_log lg_DEBUG
                 (''doing the thing with input '' @ quoted inp @ '' and output '' @ quoted out) w
      in if \<not> isfile w0 inp then
           (Inr (Some 1),
            lg_log lg_ERROR
              (''input file '' @ quoted inp @ '' does not exist or isn'' @ [CHR 0x27] @ ''t a file'')
              w0)
         else
           (case load_obj h inp (sceneprep w0) of
              (Inl e, w2) \<Rightarrow> (Inl e, w2)
            | (Inr u, w2) \<Rightarrow>
                (case subdivide (levels args) (select_all_DESELECT w2) of
                   (Inl e, w4) \<Rightarrow> (Inl e, w4)
                 | (Inr u', w4) \<Rightarrow>
                     (case save_obj h out w4 of
                        (Inl e, w5) \<Rightarrow> (Inl e, w5)
                      | (Inr u'', w5) \<Rightarrow> (Inr None, w5)))))"

section \<open>\<^verbatim>\<open>main\<close>\<close>

text \<open>The level handed to \<^verbatim>\<open>basicConfig\<close>:
  \<^verbatim>\<open>LOGLEV[min(args.verbose, len(LOGLEV) - 1)]\<close>.\<close>

definition loglev_of :: "nat \<Rightarrow> exn + int option" where
  "loglev_of v = getitem LOGLEV (min v (length LOGLEV - 1))"

text \<open>The first two statements of \<^verbatim>\<open>main\<close>:
  \<^verbatim>\<open>args_start = argv.index("--") + 1\<close> and \<^verbatim>\<open>argv = argv[args_start:]\<close>.\<close>

definition trim_argv :: "string list \<Rightarrow> exn + string list" where
  "trim_argv argv =
     (case list_index argv ''--'' of
        Inl e \<Rightarrow> Inl e
      | Inr i \<Rightarrow> Inr (drop (i + 1) argv))"

text \<open>
  \<^verbatim>\<open>main\<close> cuts the argument vector after the first \<^verbatim>\<open>--\<close>, parses the rest, configures
  the logger and calls \<^verbatim>\<open>thething\<close>. It has no \<^verbatim>\<open>return\<close> statement: what \<^verbatim>\<open>thething\<close>
  returns is dropped, and \<^verbatim>\<open>main\<close> returns \<^verbatim>\<open>None\<close>.
\<close>

definition main :: "host \<Rightarrow> string list \<Rightarrow> world \<Rightarrow> (exn + int option) \<times> world" where
  "main h argv w =
     (case trim_argv argv of
        Inl e \<Rightarrow> (Inl e, w)
      | Inr argv' \<Rightarrow>
          (case parse_arguments h argv' of
             Inl e \<Rightarrow> (Inl e, w)
           | Inr args \<Rightarrow>
               (case loglev_of (verbose args) of
                  Inl e \<Rightarrow> (Inl e, w)
                | Inr l \<Rightarrow>
                    (let w1 = basicConfig l w;
                         w2 = lg_log lg_DEBUG ''got stuff parsed, gonna do the thing!'' w1
                     in case thething h args (input_arg args) (output_arg args) w2 of
                          (Inl e, w3) \<Rightarrow> (Inl e, w3)
                        | (Inr r, w3) \<Rightarrow>
                            (Inr None,
                             lg_log lg_INFO
                               (''DONE! '' @ input_arg args @ '' -> '' @ output_arg args) w3)))))"

section \<open>The script: host probe, relaunch, exit\<close>

datatype availability = Unavailable_module | Unavailable_context | Available

text \<open>
  What the process finds when it starts: whether \<^verbatim>\<open>bpy\<close> imports and has a context,
  \<^verbatim>\<open>platform.system()\<close>, the resolved path of the script, the argument vector, and what
  \<^verbatim>\<open>os.execvp\<close> does (\<open>None\<close>: the process image is replaced; \<open>Some msg\<close>: OSError).
\<close>

record env =
  bpy :: availability
  platform_system :: string
  self_path :: string
  sys_argv :: "string list"
  execvp_error :: "string option"

definition blender_args :: "env \<Rightarrow> string list" where
  "blender_args e =
     (let blender_bin = ''blender'';
          mypath = self_path e;
          mypath = (if platform_system e = ''Windows''
                    then [CHR 0x22] @ mypath @ [CHR 0x22] else mypath)
      in [blender_bin, ''--background'', ''--factory-startup'', ''--python'', mypath, ''--'']
         @ drop 1 (sys_argv e))"

definition execBlender :: "string \<Rightarrow> env \<Rightarrow> world \<Rightarrow> outcome \<times> world" where
  "execBlender reason e w =
     (let w1 = print (''Not running under blender ('' @ reason @ '')'') w;
          w2 = print ''Re-execing myself under blender (blender must exist in path)...'' w1
      in case execvp_error e of
           None \<Rightarrow> (Replaced ''blender'' (blender_args e), w2)
         | Some msg \<Rightarrow>
             (Exited 1,
              print (''ERROR: Couldn'' @ [CHR 0x27] @ ''t exec blender: '' @ msg) w2))"

text \<open>\<^verbatim>\<open>sys.exit(r)\<close>: status 0 for \<^verbatim>\<open>None\<close>, the integer otherwise.\<close>

definition exit_status :: "int option \<Rightarrow> int" where
  "exit_status r = (case r of None \<Rightarrow> 0 | Some n \<Rightarrow> n)"

text \<open>The module's top level: the probe of \<^verbatim>\<open>bpy\<close>, then
  \<^verbatim>\<open>sys.exit(main(sys.argv))\<close>.\<close>

definition script :: "host \<Rightarrow> env \<Rightarrow> world \<Rightarrow> outcome \<times> world" where
  "script h e w =
     (case bpy e of
        Unavailable_module \<Rightarrow> execBlender ''no bpy available'' e w
      | Unavailable_context \<Rightarrow> execBlender ''no context available'' e w
      | Available \<Rightarrow>
          (case main h (sys_argv e) w of
             (Inl (SystemExit n), w') \<Rightarrow> (Exited n, w')
           | (Inl x, w') \<Rightarrow> (Uncaught x, w')
           | (Inr r, w') \<Rightarrow> (Exited (exit_status r), w')))"

section \<open>Example inputs\<close>

text \<open>
  A host and a world to evaluate the definitions on: examples of a host, not Blender. The
  example importer adds one selected object named after the file's content; the example
  exporter writes the name of each object and the types of its modifiers. The example
  parser accepts four shapes of argument list, with the answer \<^verbatim>\<open>argparse\<close> gives for
  them (two plain positionals, alone, after \<^verbatim>\<open>-vvv\<close>, or after \<^verbatim>\<open>--levels 12\<close>; and
  \<^verbatim>\<open>-h\<close>); being only an example, it reports a usage error on every other list. The
  example world holds a leftover cube, selected and active, one file, \<^verbatim>\<open>rose.obj\<close>, and
  a fresh root logger.
\<close>

definition example_parse_args :: "argument list \<Rightarrow> string list \<Rightarrow> parse_result" where
  "example_parse_args decls argv =
     (if argv = [''-h''] then Help_requested
      else if list_ex (\<lambda>a. a = [] \<or> hd a = CHR ''-'') (drop (length argv - 2) argv)
        then Usage_error ''unsupported''
      else
        (case argv of
           [i, out] \<Rightarrow>
             Parsed \<lparr>verbose = 0, levels = 2, input_arg = i, output_arg = out\<rparr>
         | [f, i, out] \<Rightarrow>
             if f = ''-vvv''
             then Parsed \<lparr>verbose = 3, levels = 2, input_arg = i, output_arg = out\<rparr>
             else Usage_error ''unsupported''
         | [f, n, i, out] \<Rightarrow>
             if f = ''--levels'' \<and> n = ''12''
             then Parsed \<lparr>verbose = 0, levels = 12, input_arg = i, output_arg = out\<rparr>
             else Usage_error ''unsupported''
         | _ \<Rightarrow> Usage_error ''unsupported''))"

definition example_host :: host where
  "example_host =
     \<lparr>import_scene_obj = (\<lambda>content objs.
          Some (objs @ [\<lparr>o_name = content, o_select = True, o_modifiers = []\<rparr>])),
      export_scene_obj = (\<lambda>opts objs.
          Some (concat (map (\<lambda>obj. o_name obj @ '':'' @ concat (map m_type (o_modifiers obj)))
                  objs))),
      parse_args = example_parse_args\<rparr>"

definition example_world :: world where
  "example_world =
     \<lparr>objects = [\<lparr>o_name = ''Cube'', o_select = True, o_modifiers = []\<rparr>],
      active_object = Some ''Cube'',
      fs = [''rose.obj'' \<mapsto> File ''rose''],
      calls = [], logger_level = 30, root_handlers = False, logged = [], stdout = []\<rparr>"

section \<open>The argument splitter\<close>

lemma index_from_absent: "x \<notin> set xs \<Longrightarrow> index_from i xs x = Inl ValueError"
  by (induction xs arbitrary: i) auto

lemma index_from_first:
  "x \<notin> set pre \<Longrightarrow> index_from i (pre @ x # post) x = Inr (i + length pre)"
  by (induction pre arbitrary: i) auto

lemma trim_argv_split: "''--'' \<notin> set pre \<Longrightarrow> trim_argv (pre @ ''--'' # post) = Inr post"
  by (simp add: trim_argv_def list_index_def index_from_first)

lemma trim_argv_absent: "''--'' \<notin> set argv \<Longrightarrow> trim_argv argv = Inl ValueError"
  by (simp add: trim_argv_def list_index_def index_from_absent)

lemma takeWhile_first:
  "x \<notin> set pre \<Longrightarrow> takeWhile (\<lambda>a. a \<noteq> x) (pre @ x # post) = pre"
  by (induction pre) auto

lemma dropWhile_first:
  "x \<notin> set pre \<Longrightarrow> dropWhile (\<lambda>a. a \<noteq> x) (pre @ x # post) = x # post"
  by (induction pre) auto

text \<open>
  Claim C3. For every argument vector \<open>V\<close> that contains the separator \<^verbatim>\<open>--\<close>, the
  splitter returns the part of \<open>V\<close> strictly after the first \<^verbatim>\<open>--\<close>, in the same order
  and with the same content: \<open>V\<close> is the strings before the first \<^verbatim>\<open>--\<close>, the separator,
  and the result.
\<close>

theorem splitter_returns_rest_after_first_separator:
  assumes "''--'' \<in> set V"
  shows "trim_argv V = Inr (tl (dropWhile (\<lambda>a. a \<noteq> ''--'') V)) \<and>
         V = takeWhile (\<lambda>a. a \<noteq> ''--'') V @ ''--'' # tl (dropWhile (\<lambda>a. a \<noteq> ''--'') V)"
proof -
  from assms obtain pre post where V: "V = pre @ ''--'' # post" and pre: "''--'' \<notin> set pre"
    by (auto dest: split_list_first)
  have tw: "takeWhile (\<lambda>a. a \<noteq> ''--'') V = pre"
    unfolding V using pre by (rule takeWhile_first)
  have dw: "dropWhile (\<lambda>a. a \<noteq> ''--'') V = ''--'' # post"
    unfolding V using pre by (rule dropWhile_first)
  show ?thesis
    unfolding tw dw using trim_argv_split [OF pre, of post] V by simp
qed

theorem splitter_returns_rest_after_first_separator_witness:
  "''--'' \<in> set [''blender'', ''--python'', ''cmd.py'', ''--'', ''-v'', ''--'', ''b.obj''] \<and>
   trim_argv [''blender'', ''--python'', ''cmd.py'', ''--'', ''-v'', ''--'', ''b.obj'']
     = Inr [''-v'', ''--'', ''b.obj'']"
  using splitter_returns_rest_after_first_separator
    [of "[''blender'', ''--python'', ''cmd.py'', ''--'', ''-v'', ''--'', ''b.obj'']"]
  by simp

text \<open>
  Claim C5. When the separator \<^verbatim>\<open>--\<close> is absent from the argument vector, the splitter
  raises ValueError; \<^verbatim>\<open>main\<close> raises it too and leaves the world as it was (nothing is
  parsed, logged or run), and the script ends with that exception uncaught.
\<close>

theorem splitter_fails_without_separator:
  assumes "''--'' \<notin> set argv"
  shows "trim_argv argv = Inl ValueError \<and>
         main h argv w = (Inl ValueError, w) \<and>
         script h (e\<lparr>bpy := Available, sys_argv := argv\<rparr>) w = (Uncaught ValueError, w)"
  using assms by (simp add: trim_argv_absent main_def script_def)

theorem splitter_fails_without_separator_witness:
  "''--'' \<notin> set [''blender'', ''rose.obj'', ''out.obj''] \<and>
   trim_argv [''blender'', ''rose.obj'', ''out.obj''] = Inl ValueError"
  using splitter_fails_without_separator [of "[''blender'', ''rose.obj'', ''out.obj'']"]
  by simp

section \<open>What each step reads and writes\<close>

lemma lg_log_fields:
  "objects (lg_log l m w) = objects w"
  "active_object (lg_log l m w) = active_object w"
  "fs (lg_log l m w) = fs w"
  "calls (lg_log l m w) = calls w"
  "logger_level (lg_log l m w) = logger_level w"
  "stdout (lg_log l m w) = stdout w"
  by (simp_all add: lg_log_def)

lemma isfile_iff: "isfile w p \<longleftrightarrow> (\<exists>c. fs w p = Some (File c))"
  by (auto simp: isfile_def split: option.splits node.splits)

lemma isfile_lg_log: "isfile (lg_log l m w) p = isfile w p"
  by (simp add: isfile_def lg_log_fields)

lemma isfile_basicConfig: "isfile (basicConfig l w) p = isfile w p"
  by (simp add: isfile_def basicConfig_def split: option.splits)

lemma remove_each_fields:
  "fs (remove_each xs w) = fs w"
  "logger_level (remove_each xs w) = logger_level w"
  "logged (remove_each xs w) = logged w"
  "stdout (remove_each xs w) = stdout w"
  by (induction xs arbitrary: w) (simp_all add: objects_remove_def)

text \<open>The loop of \<^verbatim>\<open>sceneprep\<close> removes the objects it visits, whatever else the
  collection holds.\<close>

lemma remove_each_objects:
  "objects w = xs @ ys \<Longrightarrow> objects (remove_each xs w) = ys"
  by (induction xs arbitrary: w) (simp_all add: objects_remove_def)

lemma sceneprep_objects: "objects (sceneprep w) = []"
  by (simp add: sceneprep_def Let_def mode_set_def remove_each_objects)

lemma sceneprep_fields:
  "fs (sceneprep w) = fs w"
  "logger_level (sceneprep w) = logger_level w"
  "logged (sceneprep w) = logged w"
  "stdout (sceneprep w) = stdout w"
  by (simp_all add: sceneprep_def Let_def mode_set_def remove_each_fields)

lemma select_all_fields:
  "objects (select_all_DESELECT w) = map (\<lambda>obj. obj\<lparr>o_select := False\<rparr>) (objects w)"
  "fs (select_all_DESELECT w) = fs w"
  "logger_level (select_all_DESELECT w) = logger_level w"
  "logged (select_all_DESELECT w) = logged w"
  by (simp_all add: select_all_DESELECT_def)

lemma load_obj_fs: "fs (snd (load_obj h file w)) = fs w"
  by (simp add: load_obj_def Let_def lg_log_fields split: option.splits node.splits)

lemma load_obj_logger_level: "logger_level (snd (load_obj h file w)) = logger_level w"
  by (simp add: load_obj_def Let_def lg_log_fields split: option.splits node.splits)

lemma load_obj_fst:
  "fst (load_obj h file w) =
     (case fs w file of
        Some (File content) \<Rightarrow>
          (case import_scene_obj h content (objects w) of
             None \<Rightarrow> Inl RuntimeError
           | Some objs \<Rightarrow> Inr ())
      | _ \<Rightarrow> Inl RuntimeError)"
  by (simp add: load_obj_def Let_def lg_log_fields split: option.splits node.splits)

lemma load_obj_objects:
  "fs w file = Some (File content) \<Longrightarrow> import_scene_obj h content (objects w) = Some objs \<Longrightarrow>
   objects (snd (load_obj h file w)) = objs"
  by (simp add: load_obj_def Let_def lg_log_fields)


lemma save_obj_logger_level: "logger_level (snd (save_obj h file w)) = logger_level w"
  by (simp add: save_obj_def Let_def lg_log_fields split: option.splits node.splits)


lemma save_obj_fst:
  "fst (save_obj h file w) =
     (case export_scene_obj h
             \<lparr>check_existing = False, use_selection = False, use_animation = False,
              use_mesh_modifiers = True\<rparr> (objects w) of
        None \<Rightarrow> Inl RuntimeError
      | Some content \<Rightarrow> (case fs w file of Some Directory \<Rightarrow> Inl RuntimeError | _ \<Rightarrow> Inr ()))"
  by (simp add: save_obj_def Let_def lg_log_fields split: option.splits node.splits)

lemma save_obj_fs:
  "fs (snd (save_obj h file w)) =
     (case export_scene_obj h
             \<lparr>check_existing = False, use_selection = False, use_animation = False,
              use_mesh_modifiers = True\<rparr> (objects w) of
        None \<Rightarrow> fs w
      | Some content \<Rightarrow>
          (case fs w file of Some Directory \<Rightarrow> fs w | _ \<Rightarrow> (fs w)(file \<mapsto> File content)))"
  by (simp add: save_obj_def Let_def lg_log_fields split: option.splits node.splits)

subsection \<open>The transform loop\<close>

lemma set_levels_new:
  "fits_c_int n \<Longrightarrow>
   set_levels n (modifiers_new name type obj) =
     Inr (obj\<lparr>o_modifiers := o_modifiers obj @
            [\<lparr>m_name = name, m_type = type, m_levels = max 0 (min 11 n)\<rparr>]\<rparr>)"
  by (simp add: set_levels_def modifiers_new_def)

lemma set_levels_unfit: "\<not> fits_c_int n \<Longrightarrow> set_levels n obj = Inl ValueError"
  by (simp add: set_levels_def)

lemma subdivide_loop_fits:
  "fits_c_int n \<Longrightarrow>
   subdivide_loop n visited objs cs =
     (Inr (),
      visited @ map (\<lambda>obj. obj\<lparr>o_modifiers := o_modifiers obj @
         [\<lparr>m_name = ''subsurf'', m_type = ''SUBSURF'', m_levels = max 0 (min 11 n)\<rparr>]\<rparr>) objs,
      cs @ map (\<lambda>obj. Modifiers_new (o_name obj) ''subsurf'' ''SUBSURF'') objs)"
  by (induction objs arbitrary: visited cs) (simp_all add: set_levels_new)

lemma subdivide_loop_unfit:
  "\<not> fits_c_int n \<Longrightarrow>
   subdivide_loop n visited (obj # objs) cs =
     (Inl ValueError,
      visited @ modifiers_new ''subsurf'' ''SUBSURF'' obj # objs,
      cs @ [Modifiers_new (o_name obj) ''subsurf'' ''SUBSURF''])"
  by (simp add: set_levels_unfit)

lemma subdivide_fs: "fs (snd (subdivide n w)) = fs w"
  by (simp add: subdivide_def split: prod.splits)

lemma subdivide_logger_level: "logger_level (snd (subdivide n w)) = logger_level w"
  by (simp add: subdivide_def split: prod.splits)

lemma subdivide_fits:
  assumes "fits_c_int n"
  shows "fst (subdivide n w) = Inr ()"
    and "objects (snd (subdivide n w)) =
           map (\<lambda>obj. obj\<lparr>o_modifiers := o_modifiers obj @
             [\<lparr>m_name = ''subsurf'', m_type = ''SUBSURF'', m_levels = max 0 (min 11 n)\<rparr>]\<rparr>)
             (objects w)"
  using assms by (simp_all add: subdivide_def subdivide_loop_fits)

lemma subdivide_empty:
  assumes "objects w = []"
  shows "fst (subdivide n w) = Inr ()" and "objects (snd (subdivide n w)) = []"
  using assms by (simp_all add: subdivide_def)

lemma subdivide_unfit:
  assumes "\<not> fits_c_int n" and "objects w \<noteq> []"
  shows "fst (subdivide n w) = Inl ValueError"
  using assms by (cases "objects w") (simp_all add: subdivide_def set_levels_unfit)

section \<open>\<^verbatim>\<open>thething\<close>, case by case\<close>

lemma thething_not_a_file:
  assumes "\<not> isfile w inp"
  shows "thething h args inp out w =
          (Inr (Some 1),
           lg_log lg_ERROR
             (''input file '' @ quoted inp @ '' does not exist or isn'' @ [CHR 0x27] @ ''t a file'')
             (lg_log lg_DEBUG
               (''doing the thing with input '' @ quoted inp @ '' and output '' @ quoted out) w))"
  using assms by (simp add: thething_def Let_def isfile_lg_log)

lemma thething_logger_level:
  "logger_level (snd (thething h args inp out w)) = logger_level w"
  by (simp add: thething_def Let_def lg_log_fields case_prod_unfold sceneprep_fields
        load_obj_logger_level select_all_fields subdivide_logger_level save_obj_logger_level
        split: sum.splits)

lemma thething_import_fails:
  assumes "fs w inp = Some (File content)" "import_scene_obj h content [] = None"
  shows "fst (thething h args inp out w) = Inl RuntimeError"
    and "fs (snd (thething h args inp out w)) = fs w"
  using assms
  by (simp_all add: thething_def Let_def isfile_iff lg_log_fields case_prod_unfold
        load_obj_fst load_obj_fs sceneprep_objects sceneprep_fields)

lemma thething_levels_unfit:
  assumes "fs w inp = Some (File content)" "import_scene_obj h content [] = Some objs"
    and "\<not> fits_c_int (levels args)" "objs \<noteq> []"
  shows "fst (thething h args inp out w) = Inl ValueError"
    and "fs (snd (thething h args inp out w)) = fs w"
  using assms
  by (simp_all add: thething_def Let_def isfile_iff lg_log_fields case_prod_unfold
        load_obj_fst load_obj_fs load_obj_objects sceneprep_objects sceneprep_fields
        subdivide_unfit subdivide_fs select_all_fields)


lemma thething_loaded:
  assumes "fs w inp = Some (File content)" "import_scene_obj h content [] = Some objs"
    and "fits_c_int (levels args) \<or> objs = []"
  shows "fst (thething h args inp out w) =
          (case export_scene_obj h
                  \<lparr>check_existing = False, use_selection = False, use_animation = False,
                   use_mesh_modifiers = True\<rparr>
                  (map (\<lambda>obj. obj\<lparr>o_select := False, o_modifiers := o_modifiers obj @
                     [\<lparr>m_name = ''subsurf'', m_type = ''SUBSURF'',
                       m_levels = max 0 (min 11 (levels args))\<rparr>]\<rparr>) objs) of
             None \<Rightarrow> Inl RuntimeError
           | Some c \<Rightarrow> (case fs w out of Some Directory \<Rightarrow> Inl RuntimeError | _ \<Rightarrow> Inr None))"
    and "fs (snd (thething h args inp out w)) =
          (case export_scene_obj h
                  \<lparr>check_existing = False, use_selection = False, use_animation = False,
                   use_mesh_modifiers = True\<rparr>
                  (map (\<lambda>obj. obj\<lparr>o_select := False, o_modifiers := o_modifiers obj @
                     [\<lparr>m_name = ''subsurf'', m_type = ''SUBSURF'',
                       m_levels = max 0 (min 11 (levels args))\<rparr>]\<rparr>) objs) of
             None \<Rightarrow> fs w
           | Some c \<Rightarrow>
               (case fs w out of Some Directory \<Rightarrow> fs w | _ \<Rightarrow> (fs w)(out \<mapsto> File c)))"
proof -
  let ?w4 = "select_all_DESELECT
      (snd (load_obj h inp (sceneprep (lg_log lg_DEBUG
        (''doing the thing with input '' @ quoted inp @ '' and output '' @ quoted out) w))))"
  have o4: "objects ?w4 = map (\<lambda>obj. obj\<lparr>o_select := False\<rparr>) objs"
    using assms(1,2)
    by (simp add: select_all_fields load_obj_objects sceneprep_objects sceneprep_fields
          lg_log_fields)
  have s1: "fst (subdivide (levels args) ?w4) = Inr ()"
    using assms(3) o4 by (auto simp: subdivide_fits subdivide_empty)
  have s2: "objects (snd (subdivide (levels args) ?w4)) =
      map (\<lambda>obj. obj\<lparr>o_select := False, o_modifiers := o_modifiers obj @
         [\<lparr>m_name = ''subsurf'', m_type = ''SUBSURF'',
           m_levels = max 0 (min 11 (levels args))\<rparr>]\<rparr>) objs"
    using assms(3) o4 by (auto simp: subdivide_fits subdivide_empty o_def)
  show "fst (thething h args inp out w) =
          (case export_scene_obj h
                  \<lparr>check_existing = False, use_selection = False, use_animation = False,
                   use_mesh_modifiers = True\<rparr>
                  (map (\<lambda>obj. obj\<lparr>o_select := False, o_modifiers := o_modifiers obj @
                     [\<lparr>m_name = ''subsurf'', m_type = ''SUBSURF'',
                       m_levels = max 0 (min 11 (levels args))\<rparr>]\<rparr>) objs) of
             None \<Rightarrow> Inl RuntimeError
           | Some c \<Rightarrow> (case fs w out of Some Directory \<Rightarrow> Inl RuntimeError | _ \<Rightarrow> Inr None))"
    using assms(1,2) s1 s2
    by (simp add: thething_def Let_def isfile_iff lg_log_fields case_prod_unfold
          load_obj_fst load_obj_fs sceneprep_objects sceneprep_fields
          save_obj_fst subdivide_fs select_all_fields
          split: sum.splits option.splits node.splits)
  show "fs (snd (thething h args inp out w)) =
          (case export_scene_obj h
                  \<lparr>check_existing = False, use_selection = False, use_animation = False,
                   use_mesh_modifiers = True\<rparr>
                  (map (\<lambda>obj. obj\<lparr>o_select := False, o_modifiers := o_modifiers obj @
                     [\<lparr>m_name = ''subsurf'', m_type = ''SUBSURF'',
                       m_levels = max 0 (min 11 (levels args))\<rparr>]\<rparr>) objs) of
             None \<Rightarrow> fs w
           | Some c \<Rightarrow>
               (case fs w out of Some Directory \<Rightarrow> fs w | _ \<Rightarrow> (fs w)(out \<mapsto> File c)))"
    using assms(1,2) s1 s2
    by (simp add: thething_def Let_def isfile_iff lg_log_fields case_prod_unfold
          load_obj_fst load_obj_fs sceneprep_objects sceneprep_fields
          save_obj_fs subdivide_fs select_all_fields
          split: sum.splits option.splits node.splits)
qed

section \<open>\<^verbatim>\<open>main\<close>\<close>

lemma loglev_of_eq:
  "loglev_of v = Inr (if v = 0 then None else if v = 1 then Some lg_INFO else Some lg_DEBUG)"
  by (cases v; cases "v - 1")
     (simp_all add: loglev_of_def LOGLEV_def getitem_def lg_INFO_def lg_DEBUG_def)

lemma main_not_a_file:
  assumes "trim_argv argv = Inr rest" "parse_arguments h rest = Inr args"
    "\<not> isfile w (input_arg args)"
  shows "fst (main h argv w) = Inr None"
  using assms
  by (simp add: main_def loglev_of_eq Let_def thething_not_a_file isfile_lg_log
        isfile_basicConfig)

lemma main_logger_level:
  assumes "trim_argv argv = Inr rest" "parse_arguments h rest = Inr args"
    and "loglev_of (verbose args) = Inr l"
  shows "logger_level (snd (main h argv w)) = logger_level (basicConfig l w)"
  using assms
  by (simp add: main_def Let_def case_prod_unfold lg_log_fields thething_logger_level
        split: sum.splits)

section \<open>The pipeline runner\<close>

text \<open>
  Claim C2. When the input path is not an existing regular file, \<^verbatim>\<open>thething\<close> returns 1
  (its input-not-found result) and changes nothing of the scene: the objects and the
  active object are as before, no host operation is invoked (no import, no export), and
  the files are as before, so nothing is written at the output path.
\<close>

theorem thething_missing_input_returns_1_and_leaves_scene:
  assumes "\<not> isfile w inp"
  shows "fst (thething h args inp out w) = Inr (Some 1) \<and>
         objects (snd (thething h args inp out w)) = objects w \<and>
         active_object (snd (thething h args inp out w)) = active_object w \<and>
         calls (snd (thething h args inp out w)) = calls w \<and>
         fs (snd (thething h args inp out w)) = fs w"
  using assms by (simp add: thething_not_a_file lg_log_fields)

theorem thething_missing_input_returns_1_and_leaves_scene_witness:
  "\<not> isfile example_world ''missing.obj'' \<and>
   fst (thething example_host
          \<lparr>verbose = 0, levels = 2, input_arg = ''missing.obj'', output_arg = ''out.obj''\<rparr>
          ''missing.obj'' ''out.obj'' example_world) = Inr (Some 1) \<and>
   objects (snd (thething example_host
          \<lparr>verbose = 0, levels = 2, input_arg = ''missing.obj'', output_arg = ''out.obj''\<rparr>
          ''missing.obj'' ''out.obj'' example_world)) = objects example_world \<and>
   calls (snd (thething example_host
          \<lparr>verbose = 0, levels = 2, input_arg = ''missing.obj'', output_arg = ''out.obj''\<rparr>
          ''missing.obj'' ''out.obj'' example_world)) = [] \<and>
   fs (snd (thething example_host
          \<lparr>verbose = 0, levels = 2, input_arg = ''missing.obj'', output_arg = ''out.obj''\<rparr>
          ''missing.obj'' ''out.obj'' example_world)) ''out.obj'' = None"
proof -
  have f: "\<not> isfile example_world ''missing.obj''"
    by (simp add: isfile_def example_world_def)
  show ?thesis
    using thething_missing_input_returns_1_and_leaves_scene [OF f, of example_host
        "\<lparr>verbose = 0, levels = 2, input_arg = ''missing.obj'', output_arg = ''out.obj''\<rparr>"
        "''out.obj''"] f
    by (simp add: example_world_def)
qed





text \<open>
  Claim C8. \<^verbatim>\<open>sceneprep\<close> leaves no object in the scene, whatever it held. So for two
  worlds with the same files and any scenes, any logger state and any history, a run of
  \<^verbatim>\<open>thething\<close> with the same arguments returns the same result and leaves the same
  files, the exported one among them. (The importer reads the file's content and the
  scene's objects only.)
\<close>

theorem pipeline_result_independent_of_prior_scene:
  assumes "fs w1 = fs w2"
  shows "objects (sceneprep w1) = [] \<and> objects (sceneprep w2) = [] \<and>
         fst (thething h args inp out w1) = fst (thething h args inp out w2) \<and>
         fs (snd (thething h args inp out w1)) = fs (snd (thething h args inp out w2))"
proof (cases "fs w1 inp")
  case None
  then have "\<not> isfile w1 inp" "\<not> isfile w2 inp"
    using assms by (simp_all add: isfile_iff)
  then show ?thesis
    using assms by (simp add: thething_not_a_file lg_log_fields sceneprep_objects)
next
  case (Some nd)
  show ?thesis
  proof (cases nd)
    case Directory
    with Some have "\<not> isfile w1 inp" "\<not> isfile w2 inp"
      using assms by (simp_all add: isfile_iff)
    then show ?thesis
      using assms by (simp add: thething_not_a_file lg_log_fields sceneprep_objects)
  next
    case (File content)
    with Some assms have f1: "fs w1 inp = Some (File content)"
      and f2: "fs w2 inp = Some (File content)"
      by simp_all
    show ?thesis
    proof (cases "import_scene_obj h content []")
      case None
      show ?thesis
        by (simp add: sceneprep_objects thething_import_fails [OF f1 None]
              thething_import_fails [OF f2 None] assms)
    next
      case (Some objs)
      show ?thesis
      proof (cases "fits_c_int (levels args) \<or> objs = []")
        case True
        show ?thesis
          unfolding thething_loaded [OF f1 Some True] thething_loaded [OF f2 Some True] assms
          by (simp add: sceneprep_objects)
      next
        case False
        then have u: "\<not> fits_c_int (levels args)" and n: "objs \<noteq> []"
          by simp_all
        show ?thesis
          by (simp add: sceneprep_objects thething_levels_unfit [OF f1 Some u n]
                thething_levels_unfit [OF f2 Some u n] assms)
      qed
    qed
  qed
qed

theorem pipeline_result_independent_of_prior_scene_witness:
  "fs example_world = fs (example_world\<lparr>objects := [], active_object := None\<rparr>) \<and>
   objects example_world \<noteq> objects (example_world\<lparr>objects := [], active_object := None\<rparr>) \<and>
   fst (thething example_host
          \<lparr>verbose = 0, levels = 3, input_arg = ''rose.obj'', output_arg = ''out.obj''\<rparr>
          ''rose.obj'' ''out.obj'' example_world) =
   fst (thething example_host
          \<lparr>verbose = 0, levels = 3, input_arg = ''rose.obj'', output_arg = ''out.obj''\<rparr>
          ''rose.obj'' ''out.obj'' (example_world\<lparr>objects := [], active_object := None\<rparr>)) \<and>
   fs (snd (thething example_host
          \<lparr>verbose = 0, levels = 3, input_arg = ''rose.obj'', output_arg = ''out.obj''\<rparr>
          ''rose.obj'' ''out.obj'' example_world)) =
   fs (snd (thething example_host
          \<lparr>verbose = 0, levels = 3, input_arg = ''rose.obj'', output_arg = ''out.obj''\<rparr>
          ''rose.obj'' ''out.obj'' (example_world\<lparr>objects := [], active_object := None\<rparr>)))"
proof -
  have f: "fs example_world = fs (example_world\<lparr>objects := [], active_object := None\<rparr>)"
    by simp
  have d: "objects example_world
             \<noteq> objects (example_world\<lparr>objects := [], active_object := None\<rparr>)"
    by (simp add: example_world_def)
  show ?thesis
    using pipeline_result_independent_of_prior_scene [OF f, of example_host
        "\<lparr>verbose = 0, levels = 3, input_arg = ''rose.obj'', output_arg = ''out.obj''\<rparr>"
        "''rose.obj''" "''out.obj''"] d
    by simp
qed

section \<open>The logger\<close>

text \<open>
  Claim C9. The level \<^verbatim>\<open>main\<close> configures is a function of the verbose count. When the
  strings after the separator parse to a namespace with count \<open>v\<close>, and the root logger
  is fresh (level WARNING, no handler), the root logger's level after \<^verbatim>\<open>main\<close> is WARNING
  for \<open>v = 0\<close>, INFO for \<open>v = 1\<close> and DEBUG for every \<open>v \<ge> 2\<close>, whatever \<^verbatim>\<open>thething\<close> then
  does; the index into \<^verbatim>\<open>LOGLEV\<close> is in range for every \<open>v\<close>.
\<close>

theorem verbose_count_sets_logger_level:
  assumes "trim_argv argv = Inr rest" and "parse_arguments h rest = Inr args"
    and "logger_level w = lg_WARNING" and "\<not> root_handlers w"
  shows "logger_level (snd (main h argv w)) =
           (if verbose args = 0 then lg_WARNING
            else if verbose args = 1 then lg_INFO else lg_DEBUG) \<and>
         loglev_of (verbose args) =
           Inr (if verbose args = 0 then None
                else if verbose args = 1 then Some lg_INFO else Some lg_DEBUG)"
  using assms(3,4) main_logger_level [OF assms(1,2) loglev_of_eq, of w]
  by (simp add: loglev_of_eq basicConfig_def)

theorem verbose_count_sets_logger_level_witness:
  "trim_argv [''blender'', ''--python'', ''cmd.py'', ''--'', ''-vvv'', ''rose.obj'', ''out.obj'']
     = Inr [''-vvv'', ''rose.obj'', ''out.obj''] \<and>
   parse_arguments example_host [''-vvv'', ''rose.obj'', ''out.obj'']
     = Inr \<lparr>verbose = 3, levels = 2, input_arg = ''rose.obj'', output_arg = ''out.obj''\<rparr> \<and>
   logger_level example_world = lg_WARNING \<and> \<not> root_handlers example_world \<and>
   logger_level (snd (main example_host
      [''blender'', ''--python'', ''cmd.py'', ''--'', ''-vvv'', ''rose.obj'', ''out.obj'']
      example_world)) = 10"
proof -
  have t: "trim_argv
      [''blender'', ''--python'', ''cmd.py'', ''--'', ''-vvv'', ''rose.obj'', ''out.obj'']
     = Inr [''-vvv'', ''rose.obj'', ''out.obj'']"
    by (simp add: trim_argv_def list_index_def)
  have p: "parse_arguments example_host [''-vvv'', ''rose.obj'', ''out.obj'']
     = Inr \<lparr>verbose = 3, levels = 2, input_arg = ''rose.obj'', output_arg = ''out.obj''\<rparr>"
    by (simp add: parse_arguments_def example_host_def example_parse_args_def)
  have l: "logger_level example_world = lg_WARNING"
    by (simp add: example_world_def lg_WARNING_def)
  have r: "\<not> root_handlers example_world"
    by (simp add: example_world_def)
  show ?thesis
    using verbose_count_sets_logger_level [OF t p l r] t p l r
    by (simp add: lg_DEBUG_def)
qed

section \<open>The exit status\<close>

text \<open>
  Claim C1. The claim asks for exit status 1 whenever the parsed input path is not an
  existing regular file. The script does not do that: \<^verbatim>\<open>thething\<close> returns 1, but
  \<^verbatim>\<open>main\<close> drops that value and returns \<^verbatim>\<open>None\<close>, so \<^verbatim>\<open>sys.exit(main(sys.argv))\<close> ends the
  process with status 0.
\<close>

theorem missing_input_exits_with_status_0:
  assumes "trim_argv argv = Inr rest" "parse_arguments h rest = Inr args"
    "\<not> isfile w (input_arg args)"
  shows "fst (script h (e\<lparr>bpy := Available, sys_argv := argv\<rparr>) w) = Exited 0"
proof -
  obtain r w' where m: "main h argv w = (r, w')" by (cases "main h argv w")
  with main_not_a_file [OF assms] have "r = Inr None" by simp
  with m show ?thesis by (simp add: script_def exit_status_def)
qed

theorem missing_input_exits_with_status_0_witness:
  "trim_argv [''blender'', ''--background'', ''--python'', ''/opt/cmd.py'', ''--'',
              ''missing.obj'', ''out.obj'']
     = Inr [''missing.obj'', ''out.obj''] \<and>
   parse_arguments example_host [''missing.obj'', ''out.obj'']
     = Inr \<lparr>verbose = 0, levels = 2, input_arg = ''missing.obj'', output_arg = ''out.obj''\<rparr> \<and>
   \<not> isfile example_world ''missing.obj'' \<and>
   fst (script example_host
          \<lparr>bpy = Available, platform_system = ''Linux'', self_path = ''/opt/cmd.py'',
           sys_argv = [''blender'', ''--background'', ''--python'', ''/opt/cmd.py'', ''--'',
                       ''missing.obj'', ''out.obj''],
           execvp_error = None\<rparr> example_world) = Exited 0"
proof -
  have t: "trim_argv [''blender'', ''--background'', ''--python'', ''/opt/cmd.py'', ''--'',
              ''missing.obj'', ''out.obj''] = Inr [''missing.obj'', ''out.obj'']"
    by (simp add: trim_argv_def list_index_def)
  have p: "parse_arguments example_host [''missing.obj'', ''out.obj'']
     = Inr \<lparr>verbose = 0, levels = 2, input_arg = ''missing.obj'', output_arg = ''out.obj''\<rparr>"
    by (simp add: parse_arguments_def example_host_def example_parse_args_def)
  have f: "\<not> isfile example_world
      (input_arg \<lparr>verbose = 0, levels = 2, input_arg = ''missing.obj'', output_arg = ''out.obj''\<rparr>)"
    by (simp add: isfile_def example_world_def)
  show ?thesis
    using missing_input_exits_with_status_0 [OF t p f, of
        "\<lparr>bpy = Available, platform_system = ''Linux'', self_path = ''/opt/cmd.py'',
          sys_argv = [], execvp_error = None\<rparr>"] t p f
    by simp
qed



section \<open>The relauncher\<close>

text \<open>
  Claim C4, as stated, fails on Windows: there the script wraps its own path in double
  quotes, so the fifth argument is not the resolved path itself.
\<close>

theorem relauncher_quotes_self_path_on_windows:
  "fst (script example_host
         \<lparr>bpy = Unavailable_module, platform_system = ''Windows'', self_path = ''C:/cmd.py'',
          sys_argv = [''cmd.py'', ''rose.obj'', ''out.obj''], execvp_error = None\<rparr>
         example_world)
   \<noteq> Replaced ''blender''
       [''blender'', ''--background'', ''--factory-startup'', ''--python'', ''C:/cmd.py'', ''--'',
        ''rose.obj'', ''out.obj'']"
  by (simp add: script_def execBlender_def blender_args_def)

text \<open>
  Claim C4, amended. When the probe of \<^verbatim>\<open>bpy\<close> fails and \<^verbatim>\<open>os.execvp\<close> succeeds, the
  process image is replaced by \<^verbatim>\<open>blender\<close> with the arguments \<^verbatim>\<open>blender\<close>,
  \<^verbatim>\<open>--background\<close>, \<^verbatim>\<open>--factory-startup\<close>, \<^verbatim>\<open>--python\<close>, the resolved path of the script
  (wrapped in double quotes when \<^verbatim>\<open>platform.system()\<close> is \<^verbatim>\<open>Windows\<close>), \<^verbatim>\<open>--\<close>, and then
  every original argument \<^verbatim>\<open>sys.argv[1:]\<close> in its order.
\<close>

theorem relauncher_host_invocation:
  assumes "bpy e \<noteq> Available" and "execvp_error e = None"
  shows "fst (script h e w) =
           Replaced ''blender''
             ([''blender'', ''--background'', ''--factory-startup'', ''--python'',
               (if platform_system e = ''Windows''
                then [CHR 0x22] @ self_path e @ [CHR 0x22] else self_path e),
               ''--''] @ drop 1 (sys_argv e))"
  using assms
  by (cases "bpy e") (simp_all add: script_def execBlender_def blender_args_def Let_def)

theorem relauncher_host_invocation_witness:
  "bpy \<lparr>bpy = Unavailable_context, platform_system = ''Linux'', self_path = ''/opt/cmd.py'',
       sys_argv = [''/opt/cmd.py'', ''-v'', ''rose.obj'', ''out.obj''], execvp_error = None\<rparr>
     \<noteq> Available \<and>
   fst (script example_host
         \<lparr>bpy = Unavailable_context, platform_system = ''Linux'', self_path = ''/opt/cmd.py'',
          sys_argv = [''/opt/cmd.py'', ''-v'', ''rose.obj'', ''out.obj''], execvp_error = None\<rparr>
         example_world)
     = Replaced ''blender''
         [''blender'', ''--background'', ''--factory-startup'', ''--python'', ''/opt/cmd.py'',
          ''--'', ''-v'', ''rose.obj'', ''out.obj'']"
  using relauncher_host_invocation
    [of "\<lparr>bpy = Unavailable_context, platform_system = ''Linux'',
          self_path = ''/opt/cmd.py'',
          sys_argv = [''/opt/cmd.py'', ''-v'', ''rose.obj'', ''out.obj''], execvp_error = None\<rparr>"
        example_host example_world]
  by simp

end
